theory Spec2Isabelle
  imports Complex_Main "HOL-Library.AList"
begin

section \<open>Python strings\<close>

text \<open>
  A Python \<open>str\<close> is modelled as a \<open>string\<close> whose characters are the code points
  \<open>U+0000\<close> to \<open>U+00FF\<close>. On that range \<open>str.lower\<close> maps \<open>A-Z\<close> and the
  Latin-1 capitals \<open>U+00C0-U+00DE\<close> (without the multiplication sign \<open>U+00D7\<close>) to the
  code point 32 higher, which is the same as setting bit 5, and \<open>str.isspace\<close> holds
  for \<open>U+0009-U+000D\<close>, \<open>U+001C-U+0020\<close>, \<open>U+0085\<close> and \<open>U+00A0\<close>.
\<close>

definition isupper :: "char \<Rightarrow> bool" where
  "isupper c = (let n = of_char c :: nat in
     (65 \<le> n \<and> n \<le> 90) \<or> (192 \<le> n \<and> n \<le> 222 \<and> n \<noteq> 215))"

definition lower_char :: "char \<Rightarrow> char" where
  "lower_char c =
     (if isupper c
      then (case c of Char b0 b1 b2 b3 b4 b5 b6 b7 \<Rightarrow> Char b0 b1 b2 b3 b4 True b6 b7)
      else c)"

definition lower :: "string \<Rightarrow> string" where
  "lower s = map lower_char s"

definition isspace :: "char \<Rightarrow> bool" where
  "isspace c = (let n = of_char c :: nat in
     (9 \<le> n \<and> n \<le> 13) \<or> (28 \<le> n \<and> n \<le> 32) \<or> n = 133 \<or> n = 160)"

definition strip :: "string \<Rightarrow> string" where
  "strip s = rev (dropWhile isspace (rev (dropWhile isspace s)))"

definition startswith :: "string \<Rightarrow> string \<Rightarrow> bool" where
  "startswith s p = (take (length p) s = p)"

text \<open>
  \<open>s.count(sub)\<close>: the number of non-overlapping occurrences of \<open>sub\<close> in \<open>s\<close>,
  found from left to right; the search resumes behind each occurrence. For the empty
  \<open>sub\<close> Python answers \<open>len(s) + 1\<close>.
\<close>

function str_count :: "string \<Rightarrow> string \<Rightarrow> nat" where
  "str_count [] sub = (if sub = [] then 1 else 0)"
| "str_count (c # cs) sub =
     (if sub = [] then 1 + str_count cs sub
      else if startswith (c # cs) sub then 1 + str_count (drop (length sub - 1) cs) sub
      else str_count cs sub)"
  by pat_completeness auto
termination
  by (relation "measure (\<lambda>(s, sub). length s)") auto

text \<open>\<open>sub in s\<close> on strings: \<open>sub\<close> occurs somewhere in \<open>s\<close>.\<close>

fun str_in :: "string \<Rightarrow> string \<Rightarrow> bool" where
  "str_in sub [] = (sub = [])"
| "str_in sub (c # cs) = (startswith (c # cs) sub \<or> str_in sub cs)"

section \<open>CacheManager\<close>

text \<open>
  The disk cache is a dictionary from cache keys to the stored dictionaries
  \<open>{'content': ..., 'timestamp': ...}\<close>. Instants (\<open>datetime.now()\<close>) and durations
  (\<open>timedelta\<close>) are integers counting microseconds; \<open>isoformat\<close> followed by
  \<open>fromisoformat\<close> gives the instant back, so the stored timestamp is the instant.
  Every stored dictionary has both keys, so the test
  \<open>cached_data and 'timestamp' in cached_data\<close> is the test that the key is present.
  \<open>hashlib.md5(url.encode()).hexdigest()\<close> is library code: it is the parameter
  \<open>md5\<close> of every operation that computes a key.
\<close>

record 'a cache_data =
  entry_content :: 'a
  entry_timestamp :: int

record 'a CacheManager =
  cache :: "string \<rightharpoonup> 'a cache_data"
  cache_duration :: int

definition CacheManager_init :: "int \<Rightarrow> 'a CacheManager" where
  "CacheManager_init cache_duration_days =
     \<lparr>cache = Map.empty, cache_duration = cache_duration_days * 86400000000\<rparr>"

definition get_cache_key :: "(string \<Rightarrow> string) \<Rightarrow> string \<Rightarrow> string" where
  "get_cache_key md5 url = md5 url"

definition get_cached_content ::
  "(string \<Rightarrow> string) \<Rightarrow> 'a CacheManager \<Rightarrow> string \<Rightarrow> int \<Rightarrow> 'a option" where
  "get_cached_content md5 self url now =
     (let cache_key = get_cache_key md5 url in
      case cache self cache_key of
        None \<Rightarrow> None
      | Some cached_data \<Rightarrow>
          (let cached_time = entry_timestamp cached_data in
           if now - cached_time < cache_duration self
           then Some (entry_content cached_data)
           else None))"

definition cache_content ::
  "(string \<Rightarrow> string) \<Rightarrow> 'a CacheManager \<Rightarrow> string \<Rightarrow> 'a \<Rightarrow> int \<Rightarrow> 'a CacheManager" where
  "cache_content md5 self url content now =
     (let cache_key = get_cache_key md5 url;
          cache_data = \<lparr>entry_content = content, entry_timestamp = now\<rparr>
      in self\<lparr>cache := (cache self)(cache_key \<mapsto> cache_data)\<rparr>)"

section \<open>ClaudeAnalyzer\<close>

subsection \<open>Numbers and parsed JSON\<close>

text \<open>
  A number of a parsed reply is a Python \<open>int\<close> or \<open>float\<close>. Both are read as
  rationals, together with the three non-finite floats that \<open>json.loads\<close> accepts
  (\<open>Infinity\<close>, \<open>-Infinity\<close>, \<open>NaN\<close>). The rounding of float addition is not part of
  the model. \<open>py_less\<close> is Python's \<open><\<close>, \<open>py_min a b\<close> and \<open>py_max a b\<close> are the
  built-ins \<open>min(a, b)\<close> and \<open>max(a, b)\<close>, which keep the first argument unless the
  second is strictly smaller (larger).
\<close>

datatype pynum = Fin rat | PosInf | NegInf | NaN

fun py_less :: "pynum \<Rightarrow> pynum \<Rightarrow> bool" where
  "py_less (Fin a) (Fin b) = (a < b)"
| "py_less NaN _ = False"
| "py_less _ NaN = False"
| "py_less NegInf NegInf = False"
| "py_less NegInf _ = True"
| "py_less _ NegInf = False"
| "py_less PosInf _ = False"
| "py_less _ PosInf = True"

fun py_add :: "pynum \<Rightarrow> pynum \<Rightarrow> pynum" where
  "py_add (Fin a) (Fin b) = Fin (a + b)"
| "py_add NaN _ = NaN"
| "py_add _ NaN = NaN"
| "py_add PosInf NegInf = NaN"
| "py_add NegInf PosInf = NaN"
| "py_add PosInf _ = PosInf"
| "py_add _ PosInf = PosInf"
| "py_add NegInf _ = NegInf"
| "py_add _ NegInf = NegInf"

definition py_min :: "pynum \<Rightarrow> pynum \<Rightarrow> pynum" where
  "py_min a b = (if py_less b a then b else a)"

definition py_max :: "pynum \<Rightarrow> pynum \<Rightarrow> pynum" where
  "py_max a b = (if py_less a b then b else a)"

text \<open>
  The value of \<open>json.loads\<close>. An object is an association list with Python's dictionary
  operations: \<open>map_of\<close> reads a key, \<open>AList.update\<close> overwrites it in place or appends
  it when it is new.
\<close>

datatype json =
    JNull
  | JBool bool
  | JNum pynum
  | JStr string
  | JArr "json list"
  | JObj "(string \<times> json) list"

text \<open>
  The operand of a comparison with a number or of \<open>+\<close>: numbers, and \<open>True\<close>/\<open>False\<close>
  which count as 1 and 0; every other value raises \<open>TypeError\<close> (\<open>None\<close> here).
\<close>

fun as_number :: "json \<Rightarrow> pynum option" where
  "as_number (JNum n) = Some n"
| "as_number (JBool b) = Some (Fin (if b then 1 else 0))"
| "as_number _ = None"

text \<open>\<open>sum(values)\<close>, from the start value on; \<open>None\<close> is the \<open>TypeError\<close>.\<close>

fun py_sum :: "pynum \<Rightarrow> json list \<Rightarrow> pynum option" where
  "py_sum acc [] = Some acc"
| "py_sum acc (v # vs) =
     (case as_number v of None \<Rightarrow> None | Some n \<Rightarrow> py_sum (py_add acc n) vs)"

subsection \<open>The analysis dictionary\<close>

text \<open>
  The dictionary returned by the analyzer always has the keys \<open>scores\<close> and
  \<open>total_score\<close>; \<open>other_keys\<close> holds its other keys (\<open>tags\<close>, \<open>justification\<close>,
  \<open>keywords_found\<close> in the fallback, whatever the reply carried on the remote path).
\<close>

record analysis =
  scores :: "(string \<times> json) list"
  total_score :: pynum
  other_keys :: "(string \<times> json) list"

subsection \<open>Keyword fallback\<close>

definition keywords_mapping :: "(string \<times> string list) list" where
  "keywords_mapping =
     [(''numerisation'', [''ocr'', ''document'', ''scan'', ''digitization'', ''digitisation'',
         ''pdf'', ''paper'', ''archive'', ''capture'', ''recognition'']),
      (''extraction'', [''data extraction'', ''data mining'', ''analytics'', ''intelligence'',
         ''etl'', ''data processing'', ''information extraction'', ''nlp'', ''text mining'']),
      (''certification'', [''certification'', ''trust'', ''blockchain'', ''security'',
         ''authentication'', ''verification'', ''compliance'', ''audit'', ''identity'']),
      (''mise_disposition'', [''dashboard'', ''portal'', ''api'', ''collaboration'', ''sharing'',
         ''access'', ''interface'', ''platform'', ''workspace''])]"

definition tag_keywords :: "(string \<times> string list) list" where
  "tag_keywords =
     [(''Edge computing'', [''edge'', ''fog'', ''distributed'', ''iot'', ''real-time'', ''latency'']),
      (''RSE'', [''sustainability'', ''esg'', ''carbon'', ''environment'', ''social'',
         ''governance'', ''ethics'', ''responsible'', ''green'']),
      (''Risque augment'' @ [CHR 0xE9], [''cybersecurity'', ''fraud'', ''monitoring'', ''risk'',
         ''security'', ''compliance'', ''regulation'']),
      (''Game Changer'', [''disruption'', ''innovation'', ''breakthrough'', ''revolutionary'',
         ''transformation'', ''ai'', ''quantum'']),
      (''Prospective'', [''future'', ''vision'', ''roadmap'', ''strategy'', ''long-term'',
         ''emerging'', ''next-gen''])]"

text \<open>
  \<open>_assign_fallback_tags\<close>: the loop appends a tag when any of its keywords occurs in
  the text.
\<close>

definition assign_fallback_tags :: "string \<Rightarrow> string list" where
  "assign_fallback_tags text =
     map fst (filter (\<lambda>(tag, keywords). list_ex (\<lambda>keyword. str_in keyword text) keywords)
                     tag_keywords)"

text \<open>
  The inner loop of \<open>_fallback_analysis\<close> over the keywords of one criterion, with its
  two accumulators \<open>score\<close> and \<open>criterion_keywords\<close>.
\<close>

fun count_keywords :: "string \<Rightarrow> string list \<Rightarrow> nat \<Rightarrow> string list \<Rightarrow> nat \<times> string list" where
  "count_keywords combined_text [] score criterion_keywords = (score, criterion_keywords)"
| "count_keywords combined_text (keyword # keywords) score criterion_keywords =
     (let count = str_count combined_text (lower keyword) in
      if count > 0
      then count_keywords combined_text keywords (score + count) (criterion_keywords @ [keyword])
      else count_keywords combined_text keywords score criterion_keywords)"

text \<open>
  The outer loop over the criteria, with the accumulators \<open>scores\<close> (here \<open>scores'\<close>) and
  \<open>keywords_found\<close>. \<open>score * 2.5\<close> is exact on floats for every count a text can reach.
\<close>

fun score_criteria ::
  "string \<Rightarrow> (string \<times> string list) list \<Rightarrow> (string \<times> rat) list \<Rightarrow> string list
     \<Rightarrow> (string \<times> rat) list \<times> string list" where
  "score_criteria combined_text [] scores' keywords_found = (scores', keywords_found)"
| "score_criteria combined_text ((criterion, keywords) # rest) scores' keywords_found =
     (let (score, criterion_keywords) = count_keywords combined_text keywords 0 []
      in score_criteria combined_text rest
           (AList.update criterion (min (of_nat score * (5 / 2)) 25) scores')
           (keywords_found @ criterion_keywords))"

definition fallback_justification :: string where
  "fallback_justification = ''Analyse par mots-cl'' @ [CHR 0xE9] @ ''s (Claude indisponible)''"

definition fallback_analysis :: "string \<Rightarrow> string \<Rightarrow> analysis" where
  "fallback_analysis content description =
     (let combined_text = lower (content @ '' '' @ description);
          (scores', keywords_found) = score_criteria combined_text keywords_mapping [] []
      in \<lparr>scores = map (\<lambda>(criterion, score). (criterion, JNum (Fin score))) scores',
          total_score = Fin (foldl (+) 0 (map snd scores')),
          other_keys = [(''tags'', JArr (map JStr (assign_fallback_tags combined_text))),
                    (''justification'', JStr fallback_justification),
                    (''keywords_found'', JArr (map JStr (take 10 keywords_found)))]\<rparr>)"

subsection \<open>Remote analysis\<close>

text \<open>
  Building the prompt, the call \<open>client.messages.create\<close>, reading the text of the
  answer, removing the code fence and \<open>json.loads\<close> are library code inside the
  \<open>try\<close> block. Their joint outcome is a \<open>remote_outcome\<close>: an exception of any
  kind (an error status of the service, no text block, a text that is not JSON), or the
  parsed value. The prompt depends on the company name and on the two snippets, so the
  service is a function of these three.
\<close>

datatype remote_outcome = Raised string | Parsed json

type_synonym messages_create = "string \<Rightarrow> string \<Rightarrow> string \<Rightarrow> remote_outcome"

record ClaudeAnalyzer =
  client :: "messages_create option"
  enabled :: bool

definition ClaudeAnalyzer_init :: "string option \<Rightarrow> messages_create \<Rightarrow> ClaudeAnalyzer" where
  "ClaudeAnalyzer_init api_key service =
     (if api_key \<noteq> None \<and> api_key \<noteq> Some []
      then \<lparr>client = Some service, enabled = True\<rparr>
      else \<lparr>client = None, enabled = False\<rparr>)"

definition criteria :: "string list" where
  "criteria = [''numerisation'', ''extraction'', ''certification'', ''mise_disposition'']"

text \<open>
  The validation loop over the four keys, on the dictionary \<open>analysis['scores']\<close>. A
  value that \<open>min\<close> cannot compare with 25 raises \<open>TypeError\<close>. \<open>True\<close> passes the
  clamp unchanged and is stored as the number 1 it stands for.
\<close>

fun validate_scores :: "string list \<Rightarrow> (string \<times> json) list \<Rightarrow> (string \<times> json) list option" where
  "validate_scores [] S = Some S"
| "validate_scores (key # keys) S =
     (case map_of S key of
        None \<Rightarrow> validate_scores keys (AList.update key (JNum (Fin 0)) S)
      | Some v \<Rightarrow>
          (case as_number v of
             None \<Rightarrow> None
           | Some n \<Rightarrow>
               validate_scores keys
                 (AList.update key (JNum (py_max (Fin 0) (py_min (Fin 25) n))) S)))"

text \<open>
  Everything between \<open>json.loads\<close> and \<open>return analysis\<close>. \<open>analysis['scores']\<close>
  raises unless the reply is an object with that key, and the loop raises unless the
  value of that key is an object; \<open>sum\<close> adds all values of the scores dictionary.
\<close>

definition validate_reply :: "json \<Rightarrow> analysis option" where
  "validate_reply reply =
     (case reply of
        JObj a \<Rightarrow>
          (case map_of a ''scores'' of
             Some (JObj S) \<Rightarrow>
               (case validate_scores criteria S of
                  None \<Rightarrow> None
                | Some S' \<Rightarrow>
                    (case py_sum (Fin 0) (map snd S') of
                       None \<Rightarrow> None
                     | Some total_sum \<Rightarrow>
                         Some \<lparr>scores = S', total_score = total_sum,
                               other_keys = filter (\<lambda>(k, v). k \<noteq> ''scores'' \<and> k \<noteq> ''total_score'') a\<rparr>))
           | _ \<Rightarrow> None)
      | _ \<Rightarrow> None)"

definition analyze_startup_relevance ::
  "ClaudeAnalyzer \<Rightarrow> string \<Rightarrow> string \<Rightarrow> string \<Rightarrow> analysis" where
  "analyze_startup_relevance self content description company_name =
     (if \<not> enabled self then fallback_analysis content description
      else
        (let content_snippet = take 2000 content;
             description_snippet = take 500 description
         in case client self of
              None \<Rightarrow> fallback_analysis content description
            | Some create \<Rightarrow>
                (case create company_name description_snippet content_snippet of
                   Raised e \<Rightarrow> fallback_analysis content description
                 | Parsed reply \<Rightarrow>
                     (case validate_reply reply of
                        None \<Rightarrow> fallback_analysis content description
                      | Some analysis \<Rightarrow> analysis))))"

section \<open>AsyncWebScraper\<close>

text \<open>
  The dictionary a fetch returns. Its keys carry the prefix \<open>res_\<close>; \<open>error\<close>,
  \<open>url\<close> and \<open>scraped_at\<close> are not present on every path.
\<close>

record scrape_result =
  res_content :: string
  res_title :: string
  res_error :: "string option"
  res_url :: "string option"
  res_status :: string
  res_scraped_at :: "int option"

text \<open>
  What \<open>session.get\<close> and the parsing of the body give, all inside the \<open>try\<close> block:
  a response with its status code, the text of the \<open>title\<close> element if there is one
  and the text of the page once the script, style, nav, footer and header elements are
  removed; \<open>asyncio.TimeoutError\<close>; or any other exception with its message.
\<close>

datatype http_outcome =
    Response nat "string option" string
  | TimeoutError
  | OtherException string

text \<open>The three readings of \<open>datetime.now()\<close> that one fetch can make.\<close>

record clock =
  now_lookup :: int
  now_scraped :: int
  now_cached :: int

text \<open>
  \<open>session_requests\<close> is not a field of the class: it counts the GET requests issued
  through \<open>self.session\<close>, so that a statement can speak about network calls.
\<close>

record AsyncWebScraper =
  max_concurrent :: int
  cache_manager :: "scrape_result CacheManager option"
  timeout :: int
  session_requests :: nat

definition AsyncWebScraper_init ::
  "int \<Rightarrow> scrape_result CacheManager option \<Rightarrow> int \<Rightarrow> AsyncWebScraper" where
  "AsyncWebScraper_init max_concurrent' cache_manager' timeout' =
     \<lparr>max_concurrent = max_concurrent', cache_manager = cache_manager', timeout = timeout',
      session_requests = 0\<rparr>"

function str_of_nat :: "nat \<Rightarrow> string" where
  "str_of_nat n =
     (if n < 10 then [''0123456789'' ! n]
      else str_of_nat (n div 10) @ [''0123456789'' ! (n mod 10)])"
  by pat_completeness auto
termination
  by (relation "measure id") auto

text \<open>\<open>re.sub(r'\s+', ' ', s)\<close>: every run of white space becomes one blank.\<close>

function collapse_whitespace :: "string \<Rightarrow> string" where
  "collapse_whitespace [] = []"
| "collapse_whitespace (c # cs) =
     (if isspace c then CHR '' '' # collapse_whitespace (dropWhile isspace cs)
      else c # collapse_whitespace cs)"
  by pat_completeness auto
termination
  by (relation "measure length") (auto simp: le_imp_less_Suc length_dropWhile_le)

definition normalize_url :: "string \<Rightarrow> string" where
  "normalize_url url =
     (let url' = strip url in
      if startswith url' ''http://'' \<or> startswith url' ''https://'' then url'
      else ''https://'' @ url')"

definition lookup_cache ::
  "(string \<Rightarrow> string) \<Rightarrow> AsyncWebScraper \<Rightarrow> string \<Rightarrow> int \<Rightarrow> scrape_result option" where
  "lookup_cache md5 self url now =
     (case cache_manager self of
        None \<Rightarrow> None
      | Some cm \<Rightarrow> get_cached_content md5 cm url now)"

text \<open>
  \<open>scrape_single_website\<close> is a coroutine. Up to \<open>async with semaphore\<close> it runs
  without suspending: \<open>scrape_start\<close> is that part, and it either returns the
  dictionary (\<open>Done\<close>) or reaches the semaphore with the cleaned URL (\<open>Pending\<close>).
  \<open>scrape_fetch\<close> is the body of \<open>async with semaphore\<close>. A cached dictionary is
  one that \<open>scrape_fetch\<close> stored, so it is never empty and \<open>if cached_content\<close>
  holds whenever the lookup returns one.
\<close>

datatype pending = Done scrape_result | Pending string

definition scrape_start ::
  "(string \<Rightarrow> string) \<Rightarrow> AsyncWebScraper \<Rightarrow> int \<Rightarrow> string \<Rightarrow> pending" where
  "scrape_start md5 self now url =
     (if url = [] then
        Done \<lparr>res_content = [], res_title = [], res_error = Some ''URL manquante'',
              res_url = Some url, res_status = ''failed'', res_scraped_at = None\<rparr>
      else
        (case lookup_cache md5 self url now of
           Some cached_content \<Rightarrow> Done (cached_content\<lparr>res_status := ''cached''\<rparr>)
         | None \<Rightarrow> Pending (normalize_url url)))"

definition scrape_fetch ::
  "(string \<Rightarrow> string) \<Rightarrow> (string \<Rightarrow> http_outcome) \<Rightarrow> clock \<Rightarrow> AsyncWebScraper \<Rightarrow> string
     \<Rightarrow> scrape_result \<times> AsyncWebScraper" where
  "scrape_fetch md5 session_get clk self url =
     (let self' = self\<lparr>session_requests := session_requests self + 1\<rparr> in
      case session_get url of
        Response code title text \<Rightarrow>
          (if code = 200 then
             (let title_text = (case title of Some t \<Rightarrow> strip t | None \<Rightarrow> []);
                  main_content = strip (collapse_whitespace text);
                  result = \<lparr>res_content = take 3000 main_content, res_title = title_text,
                            res_error = None, res_url = Some url, res_status = ''success'',
                            res_scraped_at = Some (now_scraped clk)\<rparr>
              in (result,
                  case cache_manager self' of
                    None \<Rightarrow> self'
                  | Some cm \<Rightarrow>
                      self'\<lparr>cache_manager :=
                              Some (cache_content md5 cm url result (now_cached clk))\<rparr>))
           else
             (\<lparr>res_content = [], res_title = [], res_error = Some (''HTTP '' @ str_of_nat code),
               res_url = Some url, res_status = ''failed'', res_scraped_at = None\<rparr>, self'))
      | TimeoutError \<Rightarrow>
          (\<lparr>res_content = [], res_title = [], res_error = Some ''Timeout'',
            res_url = Some url, res_status = ''timeout'', res_scraped_at = None\<rparr>, self')
      | OtherException e \<Rightarrow>
          (\<lparr>res_content = [], res_title = [], res_error = Some e,
            res_url = Some url, res_status = ''failed'', res_scraped_at = None\<rparr>, self'))"

definition scrape_single_website ::
  "(string \<Rightarrow> string) \<Rightarrow> (string \<Rightarrow> http_outcome) \<Rightarrow> clock \<Rightarrow> AsyncWebScraper \<Rightarrow> string
     \<Rightarrow> scrape_result \<times> AsyncWebScraper" where
  "scrape_single_website md5 session_get clk self url =
     (case scrape_start md5 self (now_lookup clk) url of
        Done result \<Rightarrow> (result, self)
      | Pending url' \<Rightarrow> scrape_fetch md5 session_get clk self url')"

text \<open>
  \<open>scrape_websites_batch\<close>. Task \<open>i\<close> fetches \<open>urls ! i\<close> with its own response
  function \<open>session_get i\<close> and clock \<open>clk i\<close>. All tasks are started before any
  response arrives, so every cache lookup reads the cache as it is when the batch
  starts; the tasks then finish in the order \<open>order\<close>, a permutation of the indices
  chosen by the network, and the cache writes happen in that order.

  \<open>asyncio.Semaphore(n)\<close> raises \<open>ValueError\<close> for negative \<open>n\<close>, and with \<open>n = 0\<close>
  no task that reaches the semaphore ever gets past it, so the batch does not return.

  With a progress callback the results are collected from \<open>tqdm.as_completed\<close>, in
  the order of completion; without one, \<open>asyncio.gather\<close> returns them in the order
  of the tasks. No task raises (every failure of a fetch is caught inside it), so the
  final loop over \<open>results\<close> copies every dictionary.
\<close>

datatype batch_error = ValueError | NeverReturns

definition is_pending :: "pending \<Rightarrow> bool" where
  "is_pending p = (case p of Done result \<Rightarrow> False | Pending url' \<Rightarrow> True)"

definition scrape_websites_batch ::
  "(string \<Rightarrow> string) \<Rightarrow> (nat \<Rightarrow> string \<Rightarrow> http_outcome) \<Rightarrow> (nat \<Rightarrow> clock) \<Rightarrow> nat list
     \<Rightarrow> AsyncWebScraper \<Rightarrow> string list \<Rightarrow> bool
     \<Rightarrow> batch_error + scrape_result list \<times> AsyncWebScraper" where
  "scrape_websites_batch md5 session_get clk order self urls progress_callback =
     (let start = (\<lambda>i. scrape_start md5 self (now_lookup (clk i)) (urls ! i));
          task = (\<lambda>i. fst (scrape_single_website md5 (session_get i) (clk i) self (urls ! i)));
          finish = (\<lambda>s i. case start i of
                             Done result \<Rightarrow> s
                           | Pending url' \<Rightarrow> snd (scrape_fetch md5 (session_get i) (clk i) s url'))
      in if max_concurrent self < 0 then Inl ValueError
         else if max_concurrent self = 0 \<and> list_ex (\<lambda>i. is_pending (start i)) [0..<length urls]
         then Inl NeverReturns
         else
           (let self' = foldl finish self order;
                results = (if progress_callback then map task order
                           else map task [0..<length urls]);
                processed_results = results
            in Inr (processed_results, self')))"

section \<open>VivaTechAnalyzerV2\<close>

text \<open>
  A row of the data frame, with the columns the analysis reads. \<open>DESCRIPTION\<close> is
  \<open>None\<close> where the cell is missing (\<open>pd.notna\<close> fails).
\<close>

record row =
  HOST_COMPANY_NAME :: string
  WEBSITE :: string
  DESCRIPTION :: "string option"
  COUNTRY :: string
  BUSINESS_SECTOR :: string
  HALL :: string
  DAYS_OF_PRESENCE :: string

text \<open>The dictionary \<open>startup_data\<close>; its keys carry the prefix \<open>sd_\<close>.\<close>

record startup_data =
  sd_name :: string
  sd_website :: string
  sd_description :: string
  sd_country :: string
  sd_business_sector :: string
  sd_hall :: string
  sd_days_presence :: string
  sd_website_content :: string
  sd_website_title :: string
  sd_scraping_status :: string
  sd_total_score :: pynum
  sd_claude_analysis :: analysis
  sd_raw_data :: row

record VivaTechAnalyzerV2 =
  df :: "row list option"
  scored_startups :: "startup_data list"
  v2_cache_manager :: "scrape_result CacheManager"
  claude_analyzer :: ClaudeAnalyzer

text \<open>\<open>DataFrame.head(n)\<close>: the first \<open>n\<close> rows, or all but the last \<open>-n\<close>.\<close>

definition head :: "int \<Rightarrow> 'a list \<Rightarrow> 'a list" where
  "head n xs = (if 0 \<le> n then take (nat n) xs else take (nat (int (length xs) + n)) xs)"

definition df_to_analyze :: "row list \<Rightarrow> int option \<Rightarrow> row list" where
  "df_to_analyze d limit =
     (case limit of None \<Rightarrow> d | Some l \<Rightarrow> if l = 0 then d else head l d)"

text \<open>The body of the loop over the rows, for the row at position \<open>idx\<close>.\<close>

definition startup_record :: "ClaudeAnalyzer \<Rightarrow> scrape_result list \<Rightarrow> nat \<Rightarrow> row \<Rightarrow> startup_data" where
  "startup_record analyzer website_results idx r =
     (let website_data = (if idx < length website_results then Some (website_results ! idx)
                          else None);
          description = (case DESCRIPTION r of Some d \<Rightarrow> d | None \<Rightarrow> []);
          content = (case website_data of Some w \<Rightarrow> res_content w | None \<Rightarrow> []);
          company_name = HOST_COMPANY_NAME r;
          analysis = analyze_startup_relevance analyzer content description company_name
      in \<lparr>sd_name = company_name, sd_website = WEBSITE r, sd_description = description,
          sd_country = COUNTRY r, sd_business_sector = BUSINESS_SECTOR r, sd_hall = HALL r,
          sd_days_presence = DAYS_OF_PRESENCE r, sd_website_content = take 500 content,
          sd_website_title = (case website_data of Some w \<Rightarrow> res_title w | None \<Rightarrow> []),
          sd_scraping_status =
            (case website_data of Some w \<Rightarrow> res_status w | None \<Rightarrow> ''unknown''),
          sd_total_score = total_score analysis, sd_claude_analysis = analysis,
          sd_raw_data = r\<rparr>)"

text \<open>
  \<open>analyze_startups_async\<close>. Without a data frame it returns at once. An exception
  of the batch leaves the method before \<open>scored_startups\<close> is assigned. The progress
  messages are not modelled.
\<close>

definition analyze_startups_async ::
  "(string \<Rightarrow> string) \<Rightarrow> (nat \<Rightarrow> string \<Rightarrow> http_outcome) \<Rightarrow> (nat \<Rightarrow> clock) \<Rightarrow> nat list
     \<Rightarrow> VivaTechAnalyzerV2 \<Rightarrow> int option \<Rightarrow> int \<Rightarrow> batch_error + VivaTechAnalyzerV2" where
  "analyze_startups_async md5 session_get clk order self limit max_concurrent' =
     (case df self of
        None \<Rightarrow> Inr self
      | Some d \<Rightarrow>
          (let rows = df_to_analyze d limit;
               urls_to_scrape = map WEBSITE rows;
               scraper = AsyncWebScraper_init max_concurrent' (Some (v2_cache_manager self)) 10
           in case scrape_websites_batch md5 session_get clk order scraper urls_to_scrape True of
                Inl e \<Rightarrow> Inl e
              | Inr (website_results, scraper') \<Rightarrow>
                  Inr (self\<lparr>scored_startups :=
                              map (\<lambda>(idx, r). startup_record (claude_analyzer self)
                                                  website_results idx r)
                                  (enumerate 0 rows),
                            v2_cache_manager :=
                              (case cache_manager scraper' of
                                 Some cm \<Rightarrow> cm
                               | None \<Rightarrow> v2_cache_manager self)\<rparr>)))"

section \<open>Notions of the specification\<close>

text \<open>
  The number of case-insensitive occurrences of the keywords of one axis in the text
  and the description taken together: both sides are lowered, the occurrences of each
  keyword are counted as \<open>str.count\<close> counts them, and the counts are added.
\<close>

definition keyword_occurrences :: "string \<Rightarrow> string \<Rightarrow> string list \<Rightarrow> nat" where
  "keyword_occurrences content description keywords =
     sum_list (map (\<lambda>keyword. str_count (lower (content @ '' '' @ description)) (lower keyword))
                   keywords)"

text \<open>
  A reply the remote path can use: an object whose \<open>scores\<close> entry is an object all
  of whose values are numbers. Every other reply is malformed.
\<close>

definition reply_usable :: "json \<Rightarrow> bool" where
  "reply_usable reply =
     (case reply of
        JObj a \<Rightarrow>
          (case map_of a ''scores'' of
             Some (JObj S) \<Rightarrow> list_all (\<lambda>(k, v). as_number v \<noteq> None) S
           | _ \<Rightarrow> False)
      | _ \<Rightarrow> False)"

text \<open>An axis score is present, finite and between 0 and 25.\<close>

definition axis_in_range :: "(string \<times> json) list \<Rightarrow> string \<Rightarrow> bool" where
  "axis_in_range S k = (\<exists>r. map_of S k = Some (JNum (Fin r)) \<and> 0 \<le> r \<and> r \<le> 25)"

text \<open>The score of an axis in a scores dictionary, 0 where it is not a finite number.\<close>

definition axis_value :: "(string \<times> json) list \<Rightarrow> string \<Rightarrow> rat" where
  "axis_value S k = (case map_of S k of Some (JNum (Fin r)) \<Rightarrow> r | _ \<Rightarrow> 0)"

section \<open>Properties\<close>

subsection \<open>Keyword fallback\<close>

lemma count_keywords_fst:
  "fst (count_keywords t kws s ck) = s + sum_list (map (\<lambda>k. str_count t (lower k)) kws)"
  by (induction kws arbitrary: s ck) (simp_all add: Let_def)

lemma update_new_key: "k \<notin> fst ` set al \<Longrightarrow> AList.update k v al = al @ [(k, v)]"
  by (induction al) auto

text \<open>
  The outer loop appends one entry per criterion, in the order of the mapping, when the
  criteria are pairwise different and none of them has a score yet.
\<close>

lemma score_criteria_fst:
  "distinct (map fst crit) \<Longrightarrow> fst ` set sc \<inter> fst ` set crit = {} \<Longrightarrow>
   fst (score_criteria t crit sc kf) =
     sc @ map (\<lambda>(c, kws). (c, min (of_nat (fst (count_keywords t kws 0 [])) * (5 / 2)) 25)) crit"
proof (induction crit arbitrary: sc kf)
  case Nil
  then show ?case by simp
next
  case (Cons p crit)
  obtain c kws where p: "p = (c, kws)" by (cases p)
  obtain n ck where ck: "count_keywords t kws 0 [] = (n, ck)"
    by (cases "count_keywords t kws 0 []")
  have new: "c \<notin> fst ` set sc" using Cons.prems(2) p by auto
  let ?sc = "sc @ [(c, min (of_nat n * (5 / 2)) 25 :: rat)]"
  have d: "distinct (map fst crit)" using Cons.prems(1) by simp
  have disj: "fst ` set ?sc \<inter> fst ` set crit = {}"
    using Cons.prems p by auto
  show ?case
    using Cons.IH [OF d disj, of "kf @ ck"] new
    by (simp add: p ck update_new_key)
qed

lemma score_criteria_keywords_mapping:
  "fst (score_criteria t keywords_mapping [] []) =
     map (\<lambda>(c, kws). (c, min (of_nat (fst (count_keywords t kws 0 [])) * (5 / 2)) 25))
         keywords_mapping"
proof -
  have d: "distinct (map fst keywords_mapping)" by (simp add: keywords_mapping_def)
  show ?thesis using score_criteria_fst [OF d, of "[]"] by simp
qed

lemma fallback_scores:
  "scores (fallback_analysis content description) =
     map (\<lambda>(c, kws).
            (c, JNum (Fin (min (of_nat (keyword_occurrences content description kws) * (5 / 2)) 25))))
         keywords_mapping"
  using score_criteria_keywords_mapping [of "lower (content @ '' '' @ description)"]
  by (simp add: fallback_analysis_def Let_def case_prod_beta count_keywords_fst
      keyword_occurrences_def o_def)

lemma foldl_plus: "foldl (+) a xs = a + sum_list (xs :: rat list)"
  by (induction xs arbitrary: a) (simp_all add: ac_simps)

text \<open>The total of the fallback is the sum of its four axis scores.\<close>

lemma fallback_total_is_sum:
  "total_score (fallback_analysis content description) =
     Fin (sum_list (map (\<lambda>kws. min (of_nat (keyword_occurrences content description kws) * (5 / 2)) 25)
                        (map snd keywords_mapping)))"
  using score_criteria_keywords_mapping [of "lower (content @ '' '' @ description)"]
  by (simp add: fallback_analysis_def Let_def case_prod_beta count_keywords_fst
      keyword_occurrences_def o_def foldl_plus)

lemma fallback_axes_in_range:
  "k \<in> set criteria \<Longrightarrow> axis_in_range (scores (fallback_analysis content description)) k"
  unfolding fallback_scores
  by (auto simp: criteria_def keywords_mapping_def axis_in_range_def)

text \<open>
  \<open>str.count\<close> does not count overlapping occurrences: a keyword that ends with its
  own first letter, as \<open>trust\<close> does, is counted once here.
\<close>

lemma str_count_skips_overlap: "str_count ''trustrust'' ''trust'' = 1"
  by (simp add: startswith_def)

text \<open>
  C6. For every text and description, each of the four axis scores of the keyword
  fallback is \<open>min (2.5 * N) 25\<close>, where \<open>N\<close> is the number of case-insensitive
  occurrences of the keywords of that axis in the combined text and description.
  Occurrences are counted as \<open>str.count\<close> counts them: from left to right and without
  overlap.
\<close>

theorem fallback_axis_score_formula:
  "\<forall>(criterion, keywords) \<in> set keywords_mapping.
     map_of (scores (fallback_analysis content description)) criterion =
       Some (JNum (Fin (min (5 / 2 * of_nat (keyword_occurrences content description keywords)) 25)))"
  unfolding fallback_scores
  by (simp add: keywords_mapping_def mult.commute)

theorem fallback_axis_score_formula_witness:
  "(''numerisation'', [''ocr'', ''document'', ''scan'', ''digitization'', ''digitisation'',
         ''pdf'', ''paper'', ''archive'', ''capture'', ''recognition'']) \<in> set keywords_mapping \<and>
   map_of (scores (fallback_analysis [] ''document OCR scan'')) ''numerisation''
     = Some (JNum (Fin (15 / 2)))"
  using fallback_axis_score_formula [of "[]" "''document OCR scan''"]
  by (simp add: keywords_mapping_def keyword_occurrences_def lower_def lower_char_def
      isupper_def startswith_def)

text \<open>
  C10. When the remote scorer is disabled, the result of \<open>analyze_startup_relevance\<close>
  does not depend on the company name.
\<close>

theorem fallback_ignores_company_name:
  "\<not> enabled self \<Longrightarrow>
   analyze_startup_relevance self content description n1
     = analyze_startup_relevance self content description n2"
  by (simp add: analyze_startup_relevance_def)

theorem fallback_ignores_company_name_witness:
  "\<not> enabled (ClaudeAnalyzer_init None (\<lambda>n d c. Raised [])) \<and>
   analyze_startup_relevance (ClaudeAnalyzer_init None (\<lambda>n d c. Raised []))
       ''site text'' ''document OCR scan'' ''Acme''
     = analyze_startup_relevance (ClaudeAnalyzer_init None (\<lambda>n d c. Raised []))
       ''site text'' ''document OCR scan'' ''Another name''"
  using fallback_ignores_company_name [of "ClaudeAnalyzer_init None (\<lambda>n d c. Raised [])"
      "''site text''" "''document OCR scan''" "''Acme''" "''Another name''"]
  by (simp add: ClaudeAnalyzer_init_def)

subsection \<open>Remote analysis\<close>

lemma py_sum_numeric:
  "py_sum acc vs = Some t \<Longrightarrow> list_all (\<lambda>v. as_number v \<noteq> None) vs"
  by (induction vs arbitrary: acc) (auto split: option.splits)

lemma numeric_py_sum:
  "list_all (\<lambda>v. as_number v \<noteq> None) vs \<Longrightarrow> \<exists>t. py_sum acc vs = Some t"
  by (induction vs arbitrary: acc) (auto split: option.splits)

lemma update_numeric_back:
  "list_all (\<lambda>(k, v). P v) (AList.update k x S) \<Longrightarrow>
   (\<forall>v. map_of S k = Some v \<longrightarrow> P v) \<Longrightarrow> list_all (\<lambda>(k, v). P v) S"
  by (induction S) (auto split: if_splits)

lemma update_numeric:
  "list_all (\<lambda>(k, v). P v) S \<Longrightarrow> P x \<Longrightarrow> list_all (\<lambda>(k, v). P v) (AList.update k x S)"
  by (induction S) auto

lemma map_of_numeric:
  "list_all (\<lambda>(k, v). P v) S \<Longrightarrow> map_of S k = Some v \<Longrightarrow> P v"
  by (induction S) (auto split: if_splits)

lemma validate_scores_numeric_back:
  "validate_scores keys S = Some S' \<Longrightarrow>
   list_all (\<lambda>(k, v). as_number v \<noteq> None) S' \<Longrightarrow> list_all (\<lambda>(k, v). as_number v \<noteq> None) S"
proof (induction keys arbitrary: S)
  case Nil
  then show ?case by simp
next
  case (Cons key keys)
  show ?case
  proof (cases "map_of S key")
    case None
    with Cons.prems have "validate_scores keys (AList.update key (JNum (Fin 0)) S) = Some S'"
      by simp
    from Cons.IH [OF this Cons.prems(2)] None show ?thesis
      by (auto dest: update_numeric_back)
  next
    case (Some v)
    with Cons.prems obtain n where n: "as_number v = Some n"
      and v: "validate_scores keys
                (AList.update key (JNum (py_max (Fin 0) (py_min (Fin 25) n))) S) = Some S'"
      by (auto split: option.splits)
    from Cons.IH [OF v Cons.prems(2)] Some n show ?thesis
      by (auto dest: update_numeric_back)
  qed
qed

lemma validate_scores_numeric:
  "list_all (\<lambda>(k, v). as_number v \<noteq> None) S \<Longrightarrow>
   \<exists>S'. validate_scores keys S = Some S' \<and> list_all (\<lambda>(k, v). as_number v \<noteq> None) S'"
proof (induction keys arbitrary: S)
  case Nil
  then show ?case by simp
next
  case (Cons key keys)
  show ?case
  proof (cases "map_of S key")
    case None
    have "list_all (\<lambda>(k, v). as_number v \<noteq> None) (AList.update key (JNum (Fin 0)) S)"
      using Cons.prems by (rule update_numeric) simp
    from Cons.IH [OF this] None show ?thesis by simp
  next
    case (Some v)
    from map_of_numeric [OF Cons.prems Some] obtain n where n: "as_number v = Some n" by auto
    have "list_all (\<lambda>(k, v). as_number v \<noteq> None)
            (AList.update key (JNum (py_max (Fin 0) (py_min (Fin 25) n))) S)"
      using Cons.prems by (rule update_numeric) simp
    from Cons.IH [OF this] Some n show ?thesis by simp
  qed
qed

text \<open>The replies that end in the \<open>except\<close> branch are exactly the unusable ones.\<close>

lemma validate_reply_unusable: "\<not> reply_usable reply \<Longrightarrow> validate_reply reply = None"
proof (rule ccontr)
  assume nu: "\<not> reply_usable reply" and "validate_reply reply \<noteq> None"
  then obtain a S S' t where r: "reply = JObj a" and s: "map_of a ''scores'' = Some (JObj S)"
    and v: "validate_scores criteria S = Some S'" and t: "py_sum (Fin 0) (map snd S') = Some t"
    by (auto simp: validate_reply_def split: json.splits option.splits)
  from py_sum_numeric [OF t] have "list_all (\<lambda>(k, v). as_number v \<noteq> None) S'"
    by (simp add: list_all_iff case_prod_beta)
  from validate_scores_numeric_back [OF v this] nu r s show False
    by (simp add: reply_usable_def)
qed

lemma validate_reply_usable: "reply_usable reply \<Longrightarrow> \<exists>a. validate_reply reply = Some a"
proof -
  assume u: "reply_usable reply"
  then obtain a where r: "reply = JObj a"
    by (cases reply) (simp_all add: reply_usable_def)
  from u r obtain x where x: "map_of a ''scores'' = Some x"
    by (cases "map_of a ''scores''") (simp_all add: reply_usable_def)
  from u r x obtain S where s: "map_of a ''scores'' = Some (JObj S)"
    and n: "list_all (\<lambda>(k, v). as_number v \<noteq> None) S"
    by (cases x) (simp_all add: reply_usable_def)
  from validate_scores_numeric [OF n, of criteria] obtain S' where
    v: "validate_scores criteria S = Some S'"
    and n': "list_all (\<lambda>(k, v). as_number v \<noteq> None) S'"
    by auto
  from n' have "list_all (\<lambda>v. as_number v \<noteq> None) (map snd S')"
    by (simp add: list_all_iff case_prod_beta)
  from numeric_py_sum [OF this, of "Fin 0"] obtain t where "py_sum (Fin 0) (map snd S') = Some t"
    by auto
  with r s v show ?thesis by (simp add: validate_reply_def)
qed

text \<open>
  C7. On the remote path, every failure of the remote call (an exception of the call,
  which includes an error status and a text that cannot be parsed, or a parsed reply
  that is malformed) makes the analyzer return the result of the keyword fallback for
  the same text and description; the analyzer itself never raises.
\<close>

theorem remote_failure_falls_back:
  "enabled self \<Longrightarrow>
   client self = None \<or>
   (\<exists>create. client self = Some create \<and>
      ((\<exists>e. create company_name (take 500 description) (take 2000 content) = Raised e) \<or>
       (\<exists>reply. create company_name (take 500 description) (take 2000 content) = Parsed reply \<and>
          \<not> reply_usable reply))) \<Longrightarrow>
   analyze_startup_relevance self content description company_name
     = fallback_analysis content description"
  by (auto simp: analyze_startup_relevance_def Let_def validate_reply_unusable)

theorem remote_failure_falls_back_witness:
  "enabled \<lparr>client = Some (\<lambda>n d c. Raised ''overloaded''), enabled = True\<rparr> \<and>
   analyze_startup_relevance \<lparr>client = Some (\<lambda>n d c. Raised ''overloaded''), enabled = True\<rparr>
     ''site text'' ''document OCR scan'' ''Acme''
     = fallback_analysis ''site text'' ''document OCR scan'' \<and>
   \<not> reply_usable (JObj [(''scores'', JObj [(''numerisation'', JStr ''high'')])]) \<and>
   analyze_startup_relevance
     \<lparr>client = Some (\<lambda>n d c. Parsed (JObj [(''scores'', JObj [(''numerisation'', JStr ''high'')])])),
      enabled = True\<rparr>
     ''site text'' ''document OCR scan'' ''Acme''
     = fallback_analysis ''site text'' ''document OCR scan''"
  using remote_failure_falls_back
      [of "\<lparr>client = Some (\<lambda>n d c. Raised ''overloaded''), enabled = True\<rparr>"
          "''Acme''" "''document OCR scan''" "''site text''"]
    remote_failure_falls_back
      [of "\<lparr>client = Some (\<lambda>n d c.
              Parsed (JObj [(''scores'', JObj [(''numerisation'', JStr ''high'')])])),
            enabled = True\<rparr>"
          "''Acme''" "''document OCR scan''" "''site text''"]
  by (simp add: reply_usable_def)

lemma clamp_range:
  "\<exists>r. py_max (Fin 0) (py_min (Fin 25) n) = Fin r \<and> 0 \<le> r \<and> r \<le> 25"
  by (cases n) (auto simp: py_max_def py_min_def)

lemma axis_in_range_update:
  "axis_in_range S k \<Longrightarrow> key \<noteq> k \<or> (\<exists>r. v = JNum (Fin r) \<and> 0 \<le> r \<and> r \<le> 25) \<Longrightarrow>
   axis_in_range (AList.update key v S) k"
  by (auto simp: axis_in_range_def update_conv')

lemma validate_scores_keeps_range:
  "validate_scores keys S = Some S' \<Longrightarrow> axis_in_range S k \<Longrightarrow> axis_in_range S' k"
proof (induction keys arbitrary: S)
  case Nil
  then show ?case by simp
next
  case (Cons key keys)
  show ?case
  proof (cases "map_of S key")
    case None
    with Cons.prems(1) have v: "validate_scores keys (AList.update key (JNum (Fin 0)) S) = Some S'"
      by simp
    have "axis_in_range (AList.update key (JNum (Fin 0)) S) k"
      using Cons.prems(2) by (rule axis_in_range_update) simp
    with Cons.IH [OF v] show ?thesis by simp
  next
    case (Some v)
    with Cons.prems(1) obtain n where n: "as_number v = Some n"
      and v: "validate_scores keys
                (AList.update key (JNum (py_max (Fin 0) (py_min (Fin 25) n))) S) = Some S'"
      by (auto split: option.splits)
    from clamp_range [of n] obtain r where
      r: "py_max (Fin 0) (py_min (Fin 25) n) = Fin r" "0 \<le> r" "r \<le> 25" by blast
    have "axis_in_range (AList.update key (JNum (py_max (Fin 0) (py_min (Fin 25) n))) S) k"
      using Cons.prems(2) by (rule axis_in_range_update) (simp add: r)
    with Cons.IH [OF v] show ?thesis by simp
  qed
qed

lemma validate_scores_range:
  "k \<in> set keys \<Longrightarrow> validate_scores keys S = Some S' \<Longrightarrow> axis_in_range S' k"
proof (induction keys arbitrary: S)
  case Nil
  then show ?case by simp
next
  case (Cons key keys)
  show ?case
  proof (cases "map_of S key")
    case None
    with Cons.prems(2) have v: "validate_scores keys (AList.update key (JNum (Fin 0)) S) = Some S'"
      by simp
    show ?thesis
    proof (cases "k = key")
      case True
      have "axis_in_range (AList.update key (JNum (Fin 0)) S) k"
        using True by (simp add: axis_in_range_def update_conv')
      with v show ?thesis by (rule validate_scores_keeps_range)
    next
      case False
      with Cons.prems(1) have "k \<in> set keys" by simp
      from Cons.IH [OF this v] show ?thesis .
    qed
  next
    case (Some x)
    with Cons.prems(2) obtain n where n: "as_number x = Some n"
      and v: "validate_scores keys
                (AList.update key (JNum (py_max (Fin 0) (py_min (Fin 25) n))) S) = Some S'"
      by (auto split: option.splits)
    show ?thesis
    proof (cases "k = key")
      case True
      from clamp_range [of n] obtain r where
        r: "py_max (Fin 0) (py_min (Fin 25) n) = Fin r" "0 \<le> r" "r \<le> 25" by blast
      have "axis_in_range (AList.update key (JNum (py_max (Fin 0) (py_min (Fin 25) n))) S) k"
        using True r by (simp add: axis_in_range_def update_conv')
      with v show ?thesis by (rule validate_scores_keeps_range)
    next
      case False
      with Cons.prems(1) have "k \<in> set keys" by simp
      from Cons.IH [OF this v] show ?thesis .
    qed
  qed
qed

lemma validate_reply_axes_in_range:
  "validate_reply reply = Some a \<Longrightarrow> k \<in> set criteria \<Longrightarrow> axis_in_range (scores a) k"
proof -
  assume v: "validate_reply reply = Some a" and k: "k \<in> set criteria"
  from v obtain obj where r: "reply = JObj obj"
    by (cases reply) (simp_all add: validate_reply_def)
  from v r obtain x where x: "map_of obj ''scores'' = Some x"
    by (cases "map_of obj ''scores''") (simp_all add: validate_reply_def)
  from v r x obtain S where s: "x = JObj S"
    by (cases x) (simp_all add: validate_reply_def)
  from v r x s obtain S' where S': "validate_scores criteria S = Some S'" and a: "scores a = S'"
    by (auto simp: validate_reply_def split: option.splits)
  from validate_scores_range [OF k S'] a show ?thesis by simp
qed

text \<open>
  On every path, each of the four axis scores of the returned analysis is a finite
  number between 0 and 25.
\<close>

lemma analysis_axes_in_range:
  "k \<in> set criteria \<Longrightarrow>
   axis_in_range (scores (analyze_startup_relevance self content description company_name)) k"
proof -
  assume k: "k \<in> set criteria"
  let ?r = "analyze_startup_relevance self content description company_name"
  have "?r = fallback_analysis content description \<or>
        (\<exists>reply. validate_reply reply = Some ?r)"
    by (auto simp: analyze_startup_relevance_def Let_def
        split: option.splits remote_outcome.splits)
  then show ?thesis
  proof (elim disjE exE)
    assume "?r = fallback_analysis content description"
    with fallback_axes_in_range [OF k] show ?thesis by simp
  next
    fix reply
    assume "validate_reply reply = Some ?r"
    from validate_reply_axes_in_range [OF this k] show ?thesis .
  qed
qed

text \<open>
  When the scores object of the reply has no key besides the four axes, the total of
  the remote path is the sum of the four axis scores; the total of the fallback always
  is.
\<close>

lemma validate_scores_keys:
  "validate_scores keys S = Some S' \<Longrightarrow> distinct (map fst S) \<Longrightarrow>
   distinct (map fst S') \<and> fst ` set S' = fst ` set S \<union> set keys"
proof (induction keys arbitrary: S)
  case Nil
  then show ?case by simp
next
  case (Cons key keys)
  from Cons.prems(1) obtain x where
    v: "validate_scores keys (AList.update key x S) = Some S'"
    by (auto split: option.splits)
  have "distinct (map fst (AList.update key x S))"
    using Cons.prems(2) by (rule distinct_update)
  from Cons.IH [OF v this] show ?case by (auto simp: dom_update)
qed

lemma py_sum_finite:
  "\<forall>v \<in> set vs. \<exists>r. v = JNum (Fin r) \<Longrightarrow>
   py_sum (Fin a) vs = Some (Fin (a + sum_list (map (\<lambda>v. case v of JNum (Fin r) \<Rightarrow> r | _ \<Rightarrow> 0) vs)))"
proof (induction vs arbitrary: a)
  case Nil
  then show ?case by simp
next
  case (Cons v vs)
  then obtain r where r: "v = JNum (Fin r)" by auto
  have "\<forall>v \<in> set vs. \<exists>r. v = JNum (Fin r)" using Cons.prems by simp
  from Cons.IH [OF this, of "a + r"] show ?case by (simp add: r add.assoc)
qed

lemma sum_by_keys:
  assumes "distinct (map fst S)"
  shows "sum_list (map (\<lambda>p. case snd p of JNum (Fin r) \<Rightarrow> r | _ \<Rightarrow> 0) S)
           = sum_list (map (axis_value S) (map fst S))"
proof -
  have "\<And>p. p \<in> set S \<Longrightarrow> map_of S (fst p) = Some (snd p)"
    using assms by (simp add: map_of_eq_Some_iff)
  then have eq: "map (\<lambda>p. case snd p of JNum (Fin r) \<Rightarrow> r | _ \<Rightarrow> 0) S
               = map (\<lambda>p. axis_value S (fst p)) S"
    by (intro map_cong) (auto simp: axis_value_def)
  show ?thesis unfolding eq by (simp add: o_def)
qed

lemma sum_list_same_keys:
  "distinct xs \<Longrightarrow> distinct ys \<Longrightarrow> set xs = set ys \<Longrightarrow>
   sum_list (map f xs) = sum_list (map (f :: string \<Rightarrow> rat) ys)"
  by (metis sum.distinct_set_conv_list)

lemma remote_total_without_extra_keys:
  assumes v: "validate_reply (JObj obj) = Some a"
    and s: "map_of obj ''scores'' = Some (JObj S)"
    and d: "distinct (map fst S)"
    and sub: "fst ` set S \<subseteq> set criteria"
  shows "total_score a = Fin (sum_list (map (axis_value (scores a)) criteria))"
proof -
  from v s obtain S' t where S': "validate_scores criteria S = Some S'"
    and t: "py_sum (Fin 0) (map snd S') = Some t" and a: "a = \<lparr>scores = S', total_score = t, other_keys = filter (\<lambda>(k, v). k \<noteq> ''scores'' \<and> k \<noteq> ''total_score'') obj\<rparr>"
    by (auto simp: validate_reply_def split: option.splits)
  from validate_scores_keys [OF S' d] sub have d': "distinct (map fst S')"
    and keys: "fst ` set S' = set criteria" by auto
  have fin: "\<forall>x \<in> set (map snd S'). \<exists>r. x = JNum (Fin r)"
  proof
    fix x assume "x \<in> set (map snd S')"
    then obtain k where kx: "(k, x) \<in> set S'" by auto
    then have "k \<in> set criteria" using keys by force
    from validate_scores_range [OF this S'] obtain r where "map_of S' k = Some (JNum (Fin r))"
      by (auto simp: axis_in_range_def)
    moreover have "map_of S' k = Some x" using kx d' by simp
    ultimately show "\<exists>r. x = JNum (Fin r)" by auto
  qed
  have "t = Fin (sum_list (map (\<lambda>p. case snd p of JNum (Fin r) \<Rightarrow> r | _ \<Rightarrow> 0) S'))"
    using py_sum_finite [OF fin, of 0] t by (simp add: o_def)
  also have "sum_list (map (\<lambda>p. case snd p of JNum (Fin r) \<Rightarrow> r | _ \<Rightarrow> 0) S')
               = sum_list (map (axis_value S') (map fst S'))"
    using d' by (rule sum_by_keys)
  also have "\<dots> = sum_list (map (axis_value S') criteria)"
    using d' keys by (intro sum_list_same_keys) (simp_all add: criteria_def)
  finally show ?thesis by (simp add: a)
qed

lemma fallback_total_is_axis_sum:
  "total_score (fallback_analysis content description)
     = Fin (sum_list (map (axis_value (scores (fallback_analysis content description))) criteria))"
  unfolding fallback_total_is_sum fallback_scores
  by (simp add: keywords_mapping_def criteria_def axis_value_def)

text \<open>
  C3. The claim is that every result has its four axis scores in \<open>[0, 25]\<close> and a
  total equal to the sum of these four. The axis scores are in range on every path
  (\<open>analysis_axes_in_range\<close>), the fallback total is that sum
  (\<open>fallback_total_is_axis_sum\<close>) and so is the remote total for a reply without
  further score keys (\<open>remote_total_without_extra_keys\<close>). But on the remote path
  \<open>sum\<close> runs over all values of the scores dictionary of the reply: a reply with a
  fifth key gets a total that is not the sum of the four axis scores. Here the axes are
  10, 5, 0 and 0 and the total is 115.
\<close>

theorem remote_extra_score_key_inflates_total:
  "analyze_startup_relevance
     \<lparr>client = Some (\<lambda>company_name description_snippet content_snippet.
         Parsed (JObj [(''scores'', JObj [(''numerisation'', JNum (Fin 10)),
                                          (''extraction'', JNum (Fin 5)),
                                          (''certification'', JNum (Fin 0)),
                                          (''mise_disposition'', JNum (Fin 0)),
                                          (''bonus'', JNum (Fin 100))]),
                       (''total_score'', JNum (Fin 15))])),
      enabled = True\<rparr> ''content'' ''description'' ''Acme''
   = \<lparr>scores = [(''numerisation'', JNum (Fin 10)), (''extraction'', JNum (Fin 5)),
                (''certification'', JNum (Fin 0)), (''mise_disposition'', JNum (Fin 0)),
                (''bonus'', JNum (Fin 100))],
      total_score = Fin 115, other_keys = []\<rparr>"
  by (simp add: analyze_startup_relevance_def validate_reply_def criteria_def py_max_def
      py_min_def)

subsection \<open>CacheManager\<close>

text \<open>
  C5. For every URL and payload, \<open>cache_content\<close> at instant \<open>t0\<close> followed by
  \<open>get_cached_content\<close> at instant \<open>t1\<close> returns the stored payload unchanged when
  \<open>t1 - t0\<close> is less than the cache duration, and returns \<open>None\<close> when the cache
  duration has elapsed.
\<close>

theorem cache_put_get_roundtrip:
  "(t1 - t0 < cache_duration self \<longrightarrow>
      get_cached_content md5 (cache_content md5 self url payload t0) url t1 = Some payload) \<and>
   (cache_duration self \<le> t1 - t0 \<longrightarrow>
      get_cached_content md5 (cache_content md5 self url payload t0) url t1 = None)"
  by (simp add: get_cached_content_def cache_content_def Let_def)

theorem cache_put_get_roundtrip_witness:
  "get_cached_content (\<lambda>u. u) (cache_content (\<lambda>u. u) (CacheManager_init 7)
       ''http://test.com/page'' ''Some data'' 1000) ''http://test.com/page'' 2000
     = Some ''Some data'' \<and>
   get_cached_content (\<lambda>u. u) (cache_content (\<lambda>u. u) (CacheManager_init 7)
       ''http://test.com/page'' ''Some data'' 1000) ''http://test.com/page'' 604800001000
     = None"
  using cache_put_get_roundtrip [of 2000 1000 "CacheManager_init 7" "\<lambda>u. u"
      "''http://test.com/page''" "''Some data''"]
    cache_put_get_roundtrip [of 604800001000 1000 "CacheManager_init 7" "\<lambda>u. u"
      "''http://test.com/page''" "''Some data''"]
  by (simp add: CacheManager_init_def)

subsection \<open>AsyncWebScraper\<close>

text \<open>
  C8. A fetch that fails (missing URL; or, after a cache miss, a timeout, a status
  other than 200 or an exception) returns an outcome with empty content and a failure
  status and leaves the cache as it was; the cache is written only by a fetch that got
  status 200.
\<close>

theorem failed_fetch_empty_and_uncached:
  "(url = [] \<or> (lookup_cache md5 self url (now_lookup clk) = None \<and>
                 (\<forall>t x. session_get (normalize_url url) \<noteq> Response 200 t x)) \<longrightarrow>
      res_content (fst (scrape_single_website md5 session_get clk self url)) = [] \<and>
      (res_status (fst (scrape_single_website md5 session_get clk self url)) = ''failed'' \<or>
       res_status (fst (scrape_single_website md5 session_get clk self url)) = ''timeout'') \<and>
      cache_manager (snd (scrape_single_website md5 session_get clk self url))
        = cache_manager self) \<and>
   (cache_manager (snd (scrape_single_website md5 session_get clk self url))
        \<noteq> cache_manager self \<longrightarrow>
      res_status (fst (scrape_single_website md5 session_get clk self url)) = ''success'' \<and>
      (\<exists>t x. session_get (normalize_url url) = Response 200 t x))"
  by (auto simp: scrape_single_website_def scrape_start_def scrape_fetch_def Let_def
      split: option.splits http_outcome.splits)

theorem failed_fetch_empty_and_uncached_witness:
  "lookup_cache (\<lambda>u. u) (AsyncWebScraper_init 20 (Some (CacheManager_init 7)) 10)
      ''example.com'' 0 = None \<and>
   scrape_single_website (\<lambda>u. u) (\<lambda>u. Response 503 None [])
      \<lparr>now_lookup = 0, now_scraped = 1, now_cached = 2\<rparr>
      (AsyncWebScraper_init 20 (Some (CacheManager_init 7)) 10) ''example.com''
    = (\<lparr>res_content = [], res_title = [], res_error = Some ''HTTP 503'',
         res_url = Some ''https://example.com'', res_status = ''failed'',
         res_scraped_at = None\<rparr>,
       \<lparr>max_concurrent = 20, cache_manager = Some (CacheManager_init 7), timeout = 10,
         session_requests = 1\<rparr>) \<and>
   cache_manager (snd (scrape_single_website (\<lambda>u. u)
      (\<lambda>u. Response 200 (Some ''Example'') ''Example Domain'')
      \<lparr>now_lookup = 0, now_scraped = 1, now_cached = 2\<rparr>
      (AsyncWebScraper_init 20 (Some (CacheManager_init 7)) 10) ''example.com''))
    \<noteq> cache_manager (AsyncWebScraper_init 20 (Some (CacheManager_init 7)) 10) \<and>
   res_status (fst (scrape_single_website (\<lambda>u. u)
      (\<lambda>u. Response 200 (Some ''Example'') ''Example Domain'')
      \<lparr>now_lookup = 0, now_scraped = 1, now_cached = 2\<rparr>
      (AsyncWebScraper_init 20 (Some (CacheManager_init 7)) 10) ''example.com'')) = ''success''"
proof -
  let ?self = "AsyncWebScraper_init 20 (Some (CacheManager_init 7)) 10"
  let ?clk = "\<lparr>now_lookup = 0, now_scraped = 1, now_cached = 2\<rparr>"
  have miss: "lookup_cache (\<lambda>u. u) ?self ''example.com'' 0 = None"
    by (simp add: lookup_cache_def AsyncWebScraper_init_def CacheManager_init_def
        get_cached_content_def get_cache_key_def)
  have written: "cache_manager (snd (scrape_single_website (\<lambda>u. u)
      (\<lambda>u. Response 200 (Some ''Example'') ''Example Domain'') ?clk ?self ''example.com''))
    \<noteq> cache_manager ?self"
    by (simp add: scrape_single_website_def scrape_start_def scrape_fetch_def
        lookup_cache_def AsyncWebScraper_init_def CacheManager_init_def
        get_cached_content_def get_cache_key_def cache_content_def normalize_url_def
        strip_def isspace_def startswith_def Let_def)
  have fails: "scrape_single_website (\<lambda>u. u) (\<lambda>u. Response 503 None []) ?clk ?self
      ''example.com''
    = (\<lparr>res_content = [], res_title = [], res_error = Some ''HTTP 503'',
         res_url = Some ''https://example.com'', res_status = ''failed'',
         res_scraped_at = None\<rparr>,
       \<lparr>max_concurrent = 20, cache_manager = Some (CacheManager_init 7), timeout = 10,
         session_requests = 1\<rparr>)"
    by (simp add: scrape_single_website_def scrape_start_def scrape_fetch_def
        lookup_cache_def AsyncWebScraper_init_def CacheManager_init_def
        get_cached_content_def get_cache_key_def normalize_url_def strip_def isspace_def
        startswith_def Let_def)
  show ?thesis
    using failed_fetch_empty_and_uncached
        [of "''example.com''" "\<lambda>u. u" ?self ?clk "\<lambda>u. Response 503 None []"]
      failed_fetch_empty_and_uncached
        [of "''example.com''" "\<lambda>u. u" ?self ?clk
            "\<lambda>u. Response 200 (Some ''Example'') ''Example Domain''"]
      miss written fails
    by simp
qed

text \<open>
  C2. The claim is that a second fetch of a URL that was fetched and cached returns
  the cached outcome without a network call, the key of the lookup and of the write
  being the hash of the cleaned URL. The lookup hashes the URL as given and the write
  hashes the URL after \<open>strip\<close> and the \<open>https://\<close> prefix. For \<open>example.com\<close> the
  two keys differ whenever the hash tells the two strings apart (MD5 does), so the
  second fetch misses the cache and issues a second request.
\<close>

theorem second_fetch_of_bare_url_misses_cache:
  "md5 ''example.com'' \<noteq> md5 ''https://example.com'' \<Longrightarrow>
   (let session_get = (\<lambda>u. Response 200 (Some ''Example Domain'') ''Example Domain'');
        self0 = AsyncWebScraper_init 20 (Some (CacheManager_init 7)) 10;
        (r1, self1) = scrape_single_website md5 session_get
                        \<lparr>now_lookup = 0, now_scraped = 1, now_cached = 2\<rparr> self0 ''example.com'';
        (r2, self2) = scrape_single_website md5 session_get
                        \<lparr>now_lookup = 3, now_scraped = 4, now_cached = 5\<rparr> self1 ''example.com''
    in res_status r1 = ''success'' \<and> res_status r2 = ''success'' \<and>
       session_requests self1 = 1 \<and> session_requests self2 = 2)"
  by (simp add: scrape_single_website_def scrape_start_def
      scrape_fetch_def AsyncWebScraper_init_def CacheManager_init_def lookup_cache_def
      get_cached_content_def cache_content_def get_cache_key_def
      normalize_url_def strip_def isspace_def startswith_def Let_def)

theorem second_fetch_of_bare_url_misses_cache_witness:
  "(let session_get = (\<lambda>u. Response 200 (Some ''Example Domain'') ''Example Domain'');
        self0 = AsyncWebScraper_init 20 (Some (CacheManager_init 7)) 10;
        (r1, self1) = scrape_single_website (\<lambda>u. u) session_get
                        \<lparr>now_lookup = 0, now_scraped = 1, now_cached = 2\<rparr> self0 ''example.com'';
        (r2, self2) = scrape_single_website (\<lambda>u. u) session_get
                        \<lparr>now_lookup = 3, now_scraped = 4, now_cached = 5\<rparr> self1 ''example.com''
    in res_status r1 = ''success'' \<and> res_status r2 = ''success'' \<and>
       session_requests self1 = 1 \<and> session_requests self2 = 2)"
  using second_fetch_of_bare_url_misses_cache [of "\<lambda>u. u"] by simp

text \<open>
  For a URL that cleaning leaves unchanged the two keys are the same, and the second
  fetch within the cache duration returns the first outcome with status \<open>cached\<close>
  and issues no request, whatever the network would answer.
\<close>

lemma cache_short_circuit_normalized:
  assumes "url \<noteq> []" and "normalize_url url = url" and "cache_manager self = Some cm"
    and "lookup_cache md5 self url (now_lookup clk1) = None"
    and "session_get url = Response 200 t x"
    and "now_lookup clk2 - now_cached clk1 < cache_duration cm"
    and "scrape_single_website md5 session_get clk1 self url = (r1, self1)"
  shows "scrape_single_website md5 session_get' clk2 self1 url
           = (r1\<lparr>res_status := ''cached''\<rparr>, self1)"
  using assms
  by (auto simp: scrape_single_website_def scrape_start_def scrape_fetch_def Let_def
      lookup_cache_def get_cached_content_def cache_content_def)

text \<open>
  C1. The claim is that the list returned by the batch is index-aligned with the
  input. With a progress callback, as \<open>analyze_startups_async\<close> calls it, the results
  are appended in the order of completion. Here the second target has no URL and
  finishes first: position 0 holds its outcome, not the outcome of the first target.
\<close>

theorem batch_with_callback_in_completion_order:
  "scrape_websites_batch md5
     (\<lambda>i u. Response 200 (Some ''Alpha'') ''alpha site'')
     (\<lambda>i. \<lparr>now_lookup = 0, now_scraped = 1, now_cached = 2\<rparr>)
     [1, 0]
     (AsyncWebScraper_init 20 None 10)
     [''https://alpha.example'', []] True
   = Inr ([\<lparr>res_content = [], res_title = [], res_error = Some ''URL manquante'',
             res_url = Some [], res_status = ''failed'', res_scraped_at = None\<rparr>,
           \<lparr>res_content = ''alpha site'', res_title = ''Alpha'', res_error = None,
             res_url = Some ''https://alpha.example'', res_status = ''success'',
             res_scraped_at = Some 1\<rparr>],
          \<lparr>max_concurrent = 20, cache_manager = None, timeout = 10, session_requests = 1\<rparr>)"
  by (simp add: scrape_websites_batch_def scrape_single_website_def scrape_start_def
      scrape_fetch_def AsyncWebScraper_init_def lookup_cache_def normalize_url_def strip_def
      isspace_def startswith_def Let_def)

text \<open>Without a callback the batch is index-aligned, whatever the order of completion.\<close>

lemma batch_gather_aligned:
  "0 < max_concurrent self \<Longrightarrow>
   scrape_websites_batch md5 session_get clk order self urls False = Inr (rs, self') \<Longrightarrow>
   i < length urls \<Longrightarrow>
   rs ! i = fst (scrape_single_website md5 (session_get i) (clk i) self (urls ! i))"
  by (auto simp: scrape_websites_batch_def Let_def)

lemma length_order: "distinct order \<Longrightarrow> set order = {..<n} \<Longrightarrow> length order = n"
  using distinct_card [of order] by simp

lemma batch_length:
  "0 < max_concurrent self \<Longrightarrow> distinct order \<Longrightarrow> set order = {..<length urls} \<Longrightarrow>
   \<exists>rs self'. scrape_websites_batch md5 session_get clk order self urls cb = Inr (rs, self') \<and>
      length rs = length urls"
  by (simp add: scrape_websites_batch_def Let_def length_order)

subsection \<open>VivaTechAnalyzerV2\<close>

text \<open>
  The run indexes the results of the batch by the position of the row. With the
  completion order of the batch above, the row of Alpha gets the outcome of the target
  without URL and the row without URL gets the text of Alpha's site.
\<close>

lemma run_pairs_rows_with_completion_order:
  "\<exists>self'. analyze_startups_async md5
        (\<lambda>i u. Response 200 (Some ''Alpha'') ''alpha site'')
        (\<lambda>i. \<lparr>now_lookup = 0, now_scraped = 1, now_cached = 2\<rparr>)
        [1, 0]
        (self\<lparr>df := Some [\<lparr>HOST_COMPANY_NAME = ''Alpha'', WEBSITE = ''https://alpha.example'',
                            DESCRIPTION = None, COUNTRY = [], BUSINESS_SECTOR = [], HALL = [],
                            DAYS_OF_PRESENCE = []\<rparr>,
                          \<lparr>HOST_COMPANY_NAME = ''Acme'', WEBSITE = [],
                            DESCRIPTION = None, COUNTRY = [], BUSINESS_SECTOR = [], HALL = [],
                            DAYS_OF_PRESENCE = []\<rparr>],
              v2_cache_manager := CacheManager_init 7\<rparr>)
        None 20 = Inr self' \<and>
      map (\<lambda>r. (sd_name r, sd_website r, sd_scraping_status r, sd_website_content r))
          (scored_startups self')
        = [(''Alpha'', ''https://alpha.example'', ''failed'', []),
           (''Acme'', [], ''success'', ''alpha site'')]"
  by (simp add: analyze_startups_async_def df_to_analyze_def scrape_websites_batch_def
      scrape_single_website_def scrape_start_def scrape_fetch_def AsyncWebScraper_init_def
      lookup_cache_def CacheManager_init_def get_cached_content_def get_cache_key_def normalize_url_def strip_def
      isspace_def startswith_def startup_record_def Let_def)

text \<open>
  C4. For a positive concurrency limit and every list of targets, whatever the network
  answers and whatever the remote scorer does, the batch returns and has as many
  outcomes as there are targets, and the run returns and has one record per analysed
  row, in the order of the rows.
\<close>

theorem batch_and_run_cardinality:
  assumes "0 < max_concurrent scraper" and "distinct order" and "set order = {..<length urls}"
    and "0 < mc" and "df self = Some d" and "distinct order'"
    and "set order' = {..<length (df_to_analyze d limit)}"
  shows "(\<exists>rs scraper'. scrape_websites_batch md5 session_get clk order scraper urls cb
              = Inr (rs, scraper') \<and> length rs = length urls) \<and>
         (\<exists>self'. analyze_startups_async md5 session_get clk order' self limit mc = Inr self' \<and>
              length (scored_startups self') = length (df_to_analyze d limit) \<and>
              map sd_raw_data (scored_startups self') = df_to_analyze d limit)"
proof
  show "\<exists>rs scraper'. scrape_websites_batch md5 session_get clk order scraper urls cb
              = Inr (rs, scraper') \<and> length rs = length urls"
    using assms(1-3) by (rule batch_length)
next
  let ?rows = "df_to_analyze d limit"
  let ?sc = "AsyncWebScraper_init mc (Some (v2_cache_manager self)) 10"
  have "0 < max_concurrent ?sc" using assms(4) by (simp add: AsyncWebScraper_init_def)
  moreover have "set order' = {..<length (map WEBSITE ?rows)}" using assms(7) by simp
  ultimately obtain rs scraper' where
    b: "scrape_websites_batch md5 session_get clk order' ?sc (map WEBSITE ?rows) True
          = Inr (rs, scraper')"
    using batch_length [of ?sc order' "map WEBSITE ?rows" md5 session_get clk True] assms(6)
    by blast
  have "map (sd_raw_data \<circ> (\<lambda>(idx, r). startup_record (claude_analyzer self) rs idx r))
          (enumerate 0 ?rows) = map snd (enumerate 0 ?rows)"
    by (rule map_cong) (auto simp: startup_record_def Let_def)
  then have "map (sd_raw_data \<circ> (\<lambda>(idx, r). startup_record (claude_analyzer self) rs idx r))
          (enumerate 0 ?rows) = ?rows"
    by simp
  with b assms(5)
  show "\<exists>self'. analyze_startups_async md5 session_get clk order' self limit mc = Inr self' \<and>
              length (scored_startups self') = length (df_to_analyze d limit) \<and>
              map sd_raw_data (scored_startups self') = df_to_analyze d limit"
    by (simp add: analyze_startups_async_def Let_def)
qed

theorem batch_and_run_cardinality_witness:
  "(case scrape_websites_batch (\<lambda>u. u) (\<lambda>i u. TimeoutError)
           (\<lambda>i. \<lparr>now_lookup = 0, now_scraped = 1, now_cached = 2\<rparr>) [1, 0]
           (AsyncWebScraper_init 20 None 10) [''https://alpha.example'', []] True of
      Inl e \<Rightarrow> False
    | Inr (rs, scraper') \<Rightarrow> length rs = 2) \<and>
   (case analyze_startups_async (\<lambda>u. u) (\<lambda>i u. TimeoutError)
           (\<lambda>i. \<lparr>now_lookup = 0, now_scraped = 1, now_cached = 2\<rparr>) [1, 0]
           \<lparr>df = Some [\<lparr>HOST_COMPANY_NAME = ''Alpha'', WEBSITE = ''https://alpha.example'',
                         DESCRIPTION = None, COUNTRY = [], BUSINESS_SECTOR = [], HALL = [],
                         DAYS_OF_PRESENCE = []\<rparr>,
                       \<lparr>HOST_COMPANY_NAME = ''Acme'', WEBSITE = [],
                         DESCRIPTION = Some ''document OCR scan'', COUNTRY = [],
                         BUSINESS_SECTOR = [], HALL = [], DAYS_OF_PRESENCE = []\<rparr>],
             scored_startups = [], v2_cache_manager = CacheManager_init 7,
             claude_analyzer = \<lparr>client = Some (\<lambda>n d c. Raised ''overloaded''), enabled = True\<rparr>\<rparr>
           None 20 of
      Inl e \<Rightarrow> False
    | Inr self' \<Rightarrow> length (scored_startups self') = 2)"
proof -
  let ?rowA = "\<lparr>HOST_COMPANY_NAME = ''Alpha'', WEBSITE = ''https://alpha.example'',
                 DESCRIPTION = None, COUNTRY = [], BUSINESS_SECTOR = [], HALL = [],
                 DAYS_OF_PRESENCE = []\<rparr>"
  let ?rowB = "\<lparr>HOST_COMPANY_NAME = ''Acme'', WEBSITE = [],
                 DESCRIPTION = Some ''document OCR scan'', COUNTRY = [],
                 BUSINESS_SECTOR = [], HALL = [], DAYS_OF_PRESENCE = []\<rparr>"
  let ?self = "\<lparr>df = Some [?rowA, ?rowB],
             scored_startups = [], v2_cache_manager = CacheManager_init 7,
             claude_analyzer = \<lparr>client = Some (\<lambda>n d c. Raised ''overloaded''), enabled = True\<rparr>\<rparr>"
  have h1: "0 < max_concurrent (AsyncWebScraper_init 20 None 10)"
    by (simp add: AsyncWebScraper_init_def)
  have h2: "distinct [1, 0 :: nat]" by simp
  have h3: "set [1, 0 :: nat] = {..<length [''https://alpha.example'', []]}" by auto
  have h4: "(0 :: int) < 20" by simp
  have h5: "df ?self = Some [?rowA, ?rowB]" by simp
  have h7: "set [1, 0 :: nat] = {..<length (df_to_analyze [?rowA, ?rowB] None)}"
    by (auto simp: df_to_analyze_def)
  show ?thesis
    using batch_and_run_cardinality [OF h1 h2 h3 h4 h5 h2 h7, of "\<lambda>u. u" "\<lambda>i u. TimeoutError"
        "\<lambda>i. \<lparr>now_lookup = 0, now_scraped = 1, now_cached = 2\<rparr>" True]
    by (auto simp: df_to_analyze_def)
qed

text \<open>
  C9. The target named Acme with an empty URL and the description
  \<open>document OCR scan\<close>: the fetch returns the missing-URL outcome (status \<open>failed\<close>,
  error \<open>URL manquante\<close>, empty content) and changes nothing; the keyword scorer, used
  when no API key is configured, gives the description alone a \<open>numerisation\<close> score
  of 7.5; and a run over this one target yields one record with these values.
\<close>

theorem blank_url_target_is_still_scored:
  "scrape_single_website md5 session_get clk scraper []
     = (\<lparr>res_content = [], res_title = [], res_error = Some ''URL manquante'',
          res_url = Some [], res_status = ''failed'', res_scraped_at = None\<rparr>, scraper) \<and>
   map_of (scores (analyze_startup_relevance (ClaudeAnalyzer_init None service)
                     [] ''document OCR scan'' ''Acme'')) ''numerisation''
     = Some (JNum (Fin (15 / 2))) \<and>
   (\<exists>self'. analyze_startups_async md5 session_get' clk' [0]
        (self\<lparr>df := Some [\<lparr>HOST_COMPANY_NAME = ''Acme'', WEBSITE = [],
                            DESCRIPTION = Some ''document OCR scan'', COUNTRY = [],
                            BUSINESS_SECTOR = [], HALL = [], DAYS_OF_PRESENCE = []\<rparr>],
              claude_analyzer := ClaudeAnalyzer_init None service\<rparr>) None 20 = Inr self' \<and>
      map (\<lambda>r. (sd_name r, sd_scraping_status r, sd_website_content r,
                 map_of (scores (sd_claude_analysis r)) ''numerisation''))
          (scored_startups self')
        = [(''Acme'', ''failed'', [], Some (JNum (Fin (15 / 2))))])"
proof -
  have n: "map_of (scores (fallback_analysis [] ''document OCR scan'')) ''numerisation''
             = Some (JNum (Fin (15 / 2)))"
    unfolding fallback_scores
    by (simp add: keywords_mapping_def keyword_occurrences_def lower_def lower_char_def
        isupper_def startswith_def)
  show ?thesis
    by (simp add: scrape_single_website_def scrape_start_def analyze_startup_relevance_def
        ClaudeAnalyzer_init_def analyze_startups_async_def df_to_analyze_def
        scrape_websites_batch_def AsyncWebScraper_init_def startup_record_def Let_def n)
qed

end
